theory Spec2Isabelle
  imports Complex_Main "HOL-Library.Multiset"
begin

section \<open>Shapes\<close>

text \<open>
  The shape classes (Point, Line, Ray, BoundingBox, Circle, Rectangle, Polyline) are not
  among the embedded sources; only \<^verbatim>\<open>intersection/meta.ts\<close>, \<^verbatim>\<open>polygon.ts\<close> and
  \<^verbatim>\<open>utilities.ts\<close> are. A shape is represented by the data the specification gives it
  (section 3), numbers are real numbers (NaN and the infinities of IEEE doubles are outside
  the model), and every method of a shape class that the embedded code calls is a field of
  the record \<open>Library\<close> below, so that each theorem holds for every implementation of
  these methods.
\<close>

datatype Point = Point real real

datatype Vector = Vector real real

datatype IntervalSorted = IntervalSorted real real

datatype BoundingBox = BoundingBox IntervalSorted IntervalSorted

datatype Line = Line Point Point

datatype Ray = Ray Point Vector

datatype Circle = Circle Point real

text \<open>
  A Polyline object is immutable; it is represented by its points, its closed flag and
  the values of the two getters the dispatch reads, \<^verbatim>\<open>segments\<close> and \<^verbatim>\<open>boundingBox\<close>.
\<close>

record Polyline =
  points :: "Point list"
  isClosed :: bool
  segments :: "Line list"
  boundingBox :: BoundingBox

text \<open>
  Of a Rectangle the dispatch reads \<^verbatim>\<open>toPolyline()\<close> and \<^verbatim>\<open>boundingBox\<close>; a rectangle is
  represented by these two values.
\<close>

datatype Rectangle = Rectangle (Rectangle_toPolyline: Polyline) (Rectangle_boundingBox: BoundingBox)

text \<open>\<^verbatim>\<open>class Polygon\<close>: the private fields \<^verbatim>\<open>_boundary\<close> and \<^verbatim>\<open>_holes\<close> behind their getters.\<close>

record Polygon =
  boundary :: Polyline
  holes :: "Polyline list"

text \<open>\<^verbatim>\<open>get boundingBox()\<close> of Polygon.\<close>

definition Polygon_boundingBox :: "Polygon \<Rightarrow> BoundingBox" where
  "Polygon_boundingBox this = boundingBox (boundary this)"

section \<open>Errors and untyped values\<close>

text \<open>
  The exceptions the embedded code can raise: \<^verbatim>\<open>RangeError\<close> and \<^verbatim>\<open>Error\<close> with their
  messages, and the \<^verbatim>\<open>TypeError\<close> of the JavaScript runtime for a property read on
  \<^verbatim>\<open>null\<close> or \<^verbatim>\<open>undefined\<close>.
\<close>

datatype error = RangeError string | Error string | TypeError

text \<open>
  A runtime value that is an instance of none of the classes the dispatch tests for:
  \<^verbatim>\<open>null\<close>/\<^verbatim>\<open>undefined\<close>, or any other value together with what its property
  \<^verbatim>\<open>boundingBox\<close> reads as (\<open>None\<close> for \<^verbatim>\<open>undefined\<close>).
\<close>

datatype other = Nullish | Object "BoundingBox option"

text \<open>The target of an intersection: one of the eight shape kinds, an array, or another value.\<close>

datatype geom =
    GPoint Point
  | GLine Line
  | GRay Ray
  | GBoundingBox BoundingBox
  | GCircle Circle
  | GRectangle Rectangle
  | GPolyline Polyline
  | GPolygon Polygon
  | GArray "geom list"
  | GOther other

section \<open>The library around the dispatch\<close>

text \<open>The result objects of the pairwise solvers, with the fields the dispatch reads.\<close>

record Intersects =
  intersects :: bool

record LineLineResult = Intersects +
  lineAU :: real
  lineBU :: real

record RayLineResult = Intersects +
  rayU :: real
  lineU :: real

record RayRayResult = Intersects +
  rayAU :: real
  rayBU :: real

record CircleResult =
  u :: "real list"

text \<open>The enumerations \<^verbatim>\<open>PointContainment\<close> and \<^verbatim>\<open>CurveOrientation\<close>.\<close>

datatype PointContainment = inside | outside | coincident

datatype CurveOrientation = clockwise | counterclockwise

text \<open>
  The types of the package polygon-clipping: a ring of coordinate pairs, a polygon (a list
  of rings), a multi-polygon, and \<^verbatim>\<open>Geom\<close>, which is either of the two.
\<close>

type_synonym Ring = "(real \<times> real) list"

type_synonym pcPolygon = "Ring list"

type_synonym MultiPolygon = "pcPolygon list"

datatype Geom = GeomPolygon pcPolygon | GeomMultiPolygon MultiPolygon

text \<open>
  The functions that the embedded code calls and that are not among the embedded sources:
  the pairwise solvers of the namespace \<^verbatim>\<open>Intersection\<close>, the methods of the shape
  classes, the setting \<^verbatim>\<open>shapetypesSettings.absoluteTolerance\<close>, and the three
  operations of polygon-clipping. An omitted optional argument is \<open>None\<close>.
  \<open>BoundingBox_overlaps_undefined\<close> is what \<^verbatim>\<open>overlaps\<close> does when it is passed
  \<^verbatim>\<open>undefined\<close>. \<^verbatim>\<open>Polyline.contains\<close> is documented to throw on an open polyline; the
  loops of a Polygon are closed, and the method is taken as total.
\<close>

record Library =
  lineLine :: "Line \<Rightarrow> Line \<Rightarrow> LineLineResult"
  rayLine :: "Ray \<Rightarrow> Line \<Rightarrow> bool option \<Rightarrow> RayLineResult"
  rayRay :: "Ray \<Rightarrow> Ray \<Rightarrow> RayRayResult"
  lineCircle :: "Line \<Rightarrow> Circle \<Rightarrow> CircleResult"
  rayCircle :: "Ray \<Rightarrow> Circle \<Rightarrow> CircleResult"
  lineBox :: "Line \<Rightarrow> BoundingBox \<Rightarrow> Intersects"
  rayBox :: "Ray \<Rightarrow> BoundingBox \<Rightarrow> Intersects"
  Line_closestParameter :: "Line \<Rightarrow> Point \<Rightarrow> bool \<Rightarrow> real"
  Line_pointAt :: "Line \<Rightarrow> real \<Rightarrow> bool \<Rightarrow> Point"
  Ray_closestParameter :: "Ray \<Rightarrow> Point \<Rightarrow> real"
  Ray_pointAt :: "Ray \<Rightarrow> real \<Rightarrow> Point"
  Line_boundingBox :: "Line \<Rightarrow> BoundingBox"
  Circle_boundingBox :: "Circle \<Rightarrow> BoundingBox"
  BoundingBox_toPolyline :: "BoundingBox \<Rightarrow> Polyline"
  BoundingBox_contains :: "BoundingBox \<Rightarrow> Point \<Rightarrow> bool \<Rightarrow> real \<Rightarrow> bool"
  BoundingBox_overlaps :: "BoundingBox \<Rightarrow> BoundingBox \<Rightarrow> bool"
  BoundingBox_overlaps_undefined :: "BoundingBox \<Rightarrow> error + bool"
  absoluteTolerance :: real
  Polyline_fromCoords :: "Ring \<Rightarrow> Polyline"
  Polyline_asGeoJSON :: "Polyline \<Rightarrow> Ring"
  Polyline_withOrientation :: "Polyline \<Rightarrow> CurveOrientation \<Rightarrow> Polyline"
  Polyline_contains :: "Polyline \<Rightarrow> Point \<Rightarrow> real \<Rightarrow> PointContainment"
  pcUnion :: "pcPolygon \<Rightarrow> Geom \<Rightarrow> MultiPolygon"
  pcIntersection :: "pcPolygon \<Rightarrow> Geom \<Rightarrow> MultiPolygon"
  pcDifference :: "pcPolygon \<Rightarrow> Geom \<Rightarrow> MultiPolygon"

text \<open>
  Modelled from the spec: \<^verbatim>\<open>Point.equals\<close>, which is not among the embedded sources.
  Section 3 of the specification: "Equality is exact; consumers apply tolerance
  externally."
\<close>

definition Point_equals :: "Point \<Rightarrow> Point \<Rightarrow> bool" where
  "Point_equals p q = (p = q)"

section \<open>intersection/meta.ts\<close>

text \<open>
  \<^verbatim>\<open>array.sort((a, b) => a - b)\<close> on numbers is \<open>sort\<close>; \<^verbatim>\<open>[...new Set(array)]\<close>
  keeps the first occurrence of every number, in order.
\<close>

definition Set_spread :: "real list \<Rightarrow> real list" where
  "Set_spread xs = rev (remdups (rev xs))"

text \<open>The helper \<^verbatim>\<open>linePolyline\<close>: one \<^verbatim>\<open>lineLine\<close> per segment, in order.\<close>

definition linePolyline :: "Library \<Rightarrow> Line \<Rightarrow> Polyline \<Rightarrow> real list" where
  "linePolyline S theLine thePolyline =
     concat (map (\<lambda>edge. let result = lineLine S theLine edge
                          in if intersects result then [lineAU result] else [])
                 (segments thePolyline))"

text \<open>The helper \<^verbatim>\<open>rayPolyline\<close>.\<close>

definition rayPolyline :: "Library \<Rightarrow> Ray \<Rightarrow> Polyline \<Rightarrow> real list" where
  "rayPolyline S theRay thePolyline =
     concat (map (\<lambda>edge. let result = rayLine S theRay edge None
                          in if intersects result then [rayU result] else [])
                 (segments thePolyline))"

text \<open>
  The recursion of \<^verbatim>\<open>line\<close> and \<^verbatim>\<open>ray\<close> goes through the elements of an array and,
  for a box or a rectangle, through its polyline.
\<close>

fun weight :: "geom \<Rightarrow> nat" where
  "weight (GArray gs) = Suc (sum_list (map weight gs))"
| "weight (GBoundingBox b) = 1"
| "weight (GRectangle r) = 1"
| "weight g = 0"

function line :: "Library \<Rightarrow> Line \<Rightarrow> geom \<Rightarrow> real list" where
  "line S theLine (GArray otherGeom) = sort (concat (map (line S theLine) otherGeom))"
| "line S theLine (GPoint otherGeom) =
     (let t = Line_closestParameter S theLine otherGeom True;
          p = Line_pointAt S theLine t True
      in if Point_equals p otherGeom then [t] else [])"
| "line S theLine (GLine otherGeom) =
     (let result = lineLine S theLine otherGeom
      in if intersects result then [lineAU result] else [])"
| "line S theLine (GRay otherGeom) =
     (let result = rayLine S otherGeom theLine (Some False)
      in if intersects result then [lineU result] else [])"
| "line S theLine (GBoundingBox otherGeom) =
     line S theLine (GPolyline (BoundingBox_toPolyline S otherGeom))"
| "line S theLine (GCircle otherGeom) = u (lineCircle S theLine otherGeom)"
| "line S theLine (GRectangle otherGeom) =
     line S theLine (GPolyline (Rectangle_toPolyline otherGeom))"
| "line S theLine (GPolyline otherGeom) =
     sort (if intersects (lineBox S theLine (boundingBox otherGeom))
           then linePolyline S theLine otherGeom else [])"
| "line S theLine (GPolygon otherGeom) =
     sort (if intersects (lineBox S theLine (boundingBox (boundary otherGeom)))
           then linePolyline S theLine (boundary otherGeom) @
                concat (map (\<lambda>hole. if intersects (lineBox S theLine (boundingBox hole))
                                     then linePolyline S theLine hole else [])
                            (holes otherGeom))
           else [])"
| "line S theLine (GOther otherGeom) = []"
  by pat_completeness auto
termination
  by (relation "measure (\<lambda>(S, theLine, g). weight g)")
     (auto simp: less_Suc_eq_le member_le_sum_list)

function ray :: "Library \<Rightarrow> Ray \<Rightarrow> geom \<Rightarrow> real list" where
  "ray S theRay (GArray otherGeom) = sort (concat (map (ray S theRay) otherGeom))"
| "ray S theRay (GPoint otherGeom) =
     (let t = Ray_closestParameter S theRay otherGeom;
          p = Ray_pointAt S theRay t
      in if Point_equals p otherGeom then [t] else [])"
| "ray S theRay (GLine otherGeom) =
     (let result = rayLine S theRay otherGeom None
      in if intersects result then [rayU result] else [])"
| "ray S theRay (GRay otherGeom) =
     (let result = rayRay S theRay otherGeom
      in if intersects result then [rayAU result] else [])"
| "ray S theRay (GBoundingBox otherGeom) =
     ray S theRay (GPolyline (BoundingBox_toPolyline S otherGeom))"
| "ray S theRay (GCircle otherGeom) = u (rayCircle S theRay otherGeom)"
| "ray S theRay (GRectangle otherGeom) =
     ray S theRay (GPolyline (Rectangle_toPolyline otherGeom))"
| "ray S theRay (GPolyline otherGeom) =
     sort (if intersects (rayBox S theRay (boundingBox otherGeom))
           then rayPolyline S theRay otherGeom else [])"
| "ray S theRay (GPolygon otherGeom) =
     sort (if intersects (rayBox S theRay (boundingBox (boundary otherGeom)))
           then rayPolyline S theRay (boundary otherGeom) @
                concat (map (\<lambda>hole. if intersects (rayBox S theRay (boundingBox hole))
                                     then rayPolyline S theRay hole else [])
                            (holes otherGeom))
           else [])"
| "ray S theRay (GOther otherGeom) = []"
  by pat_completeness auto
termination
  by (relation "measure (\<lambda>(S, theRay, g). weight g)")
     (auto simp: less_Suc_eq_le member_le_sum_list)

text \<open>
  \<^verbatim>\<open>polyline\<close>, lines 238 to 248: every segment of the polyline, as a line, against
  the target; each parameter offset by the index of its segment; duplicates removed; sorted.
\<close>

definition polyline_segments :: "Library \<Rightarrow> Polyline \<Rightarrow> geom \<Rightarrow> real list" where
  "polyline_segments S thePolyline otherGeom =
     (let intersections =
            concat (map (\<lambda>i. let edge = segments thePolyline ! i
                              in map (\<lambda>num. real i + num) (line S edge otherGeom))
                        [0..<length (segments thePolyline)]);
          unique = Set_spread intersections
      in sort unique)"

text \<open>The results of a loop whose body may throw: the first exception ends the loop.\<close>

fun collect :: "(error + 'a) list \<Rightarrow> error + 'a list" where
  "collect [] = Inr []"
| "collect (r # rs) =
     (case r of
        Inl e \<Rightarrow> Inl e
      | Inr x \<Rightarrow> (case collect rs of Inl e \<Rightarrow> Inl e | Inr xs \<Rightarrow> Inr (x # xs)))"

text \<open>
  \<^verbatim>\<open>polyline\<close>. The branch \<^verbatim>\<open>!(otherGeom instanceof Ray)\<close> reads the property
  \<^verbatim>\<open>boundingBox\<close> of the target, whatever the target is.
\<close>

fun polyline :: "Library \<Rightarrow> Polyline \<Rightarrow> geom \<Rightarrow> error + real list" where
  "polyline S thePolyline (GArray otherGeom) =
     (case collect (map (polyline S thePolyline) otherGeom) of
        Inl e \<Rightarrow> Inl e
      | Inr arrayIntersections \<Rightarrow> Inr (sort (concat arrayIntersections)))"
| "polyline S thePolyline (GPoint otherGeom) =
     (if \<not> BoundingBox_contains S (boundingBox thePolyline) otherGeom False (absoluteTolerance S)
      then Inr []
      else Inr (polyline_segments S thePolyline (GPoint otherGeom)))"
| "polyline S thePolyline (GBoundingBox otherGeom) =
     (if \<not> BoundingBox_overlaps S (boundingBox thePolyline) otherGeom
      then Inr []
      else Inr (polyline_segments S thePolyline (GBoundingBox otherGeom)))"
| "polyline S thePolyline (GRay otherGeom) =
     Inr (polyline_segments S thePolyline (GRay otherGeom))"
| "polyline S thePolyline (GLine otherGeom) =
     (if \<not> BoundingBox_overlaps S (boundingBox thePolyline) (Line_boundingBox S otherGeom)
      then Inr []
      else Inr (polyline_segments S thePolyline (GLine otherGeom)))"
| "polyline S thePolyline (GCircle otherGeom) =
     (if \<not> BoundingBox_overlaps S (boundingBox thePolyline) (Circle_boundingBox S otherGeom)
      then Inr []
      else Inr (polyline_segments S thePolyline (GCircle otherGeom)))"
| "polyline S thePolyline (GRectangle otherGeom) =
     (if \<not> BoundingBox_overlaps S (boundingBox thePolyline) (Rectangle_boundingBox otherGeom)
      then Inr []
      else Inr (polyline_segments S thePolyline (GRectangle otherGeom)))"
| "polyline S thePolyline (GPolyline otherGeom) =
     (if \<not> BoundingBox_overlaps S (boundingBox thePolyline) (boundingBox otherGeom)
      then Inr []
      else Inr (polyline_segments S thePolyline (GPolyline otherGeom)))"
| "polyline S thePolyline (GPolygon otherGeom) =
     (if \<not> BoundingBox_overlaps S (boundingBox thePolyline) (Polygon_boundingBox otherGeom)
      then Inr []
      else Inr (polyline_segments S thePolyline (GPolygon otherGeom)))"
| "polyline S thePolyline (GOther Nullish) = Inl TypeError"
| "polyline S thePolyline (GOther (Object (Some box))) =
     (if \<not> BoundingBox_overlaps S (boundingBox thePolyline) box
      then Inr []
      else Inr (polyline_segments S thePolyline (GOther (Object (Some box)))))"
| "polyline S thePolyline (GOther (Object None)) =
     (case BoundingBox_overlaps_undefined S (boundingBox thePolyline) of
        Inl e \<Rightarrow> Inl e
      | Inr overlaps \<Rightarrow>
          if \<not> overlaps then Inr []
          else Inr (polyline_segments S thePolyline (GOther (Object None))))"

section \<open>utilities.ts\<close>

text \<open>
  The type guards take a value of type \<^verbatim>\<open>any\<close>: a number, an instance of one of the
  classes they test for, an array, or something else.
\<close>

datatype any =
    ANumber real
  | APoint Point
  | APolyline Polyline
  | APolygon Polygon
  | AArray "any list"
  | AOther

fun isPointArray :: "any \<Rightarrow> bool" where
  "isPointArray (AArray (APoint p # rest)) = True"
| "isPointArray v = False"

fun isNumberArray :: "any \<Rightarrow> bool" where
  "isNumberArray (AArray (ANumber n # rest)) = True"
| "isNumberArray v = False"

fun isPolylineArray :: "any \<Rightarrow> bool" where
  "isPolylineArray (AArray (APolyline p # rest)) = True"
| "isPolylineArray v = False"

fun isPolygonArray :: "any \<Rightarrow> bool" where
  "isPolygonArray (AArray (APolygon p # rest)) = True"
| "isPolygonArray v = False"

section \<open>polygon.ts\<close>

text \<open>The loop of the constructor over the holes.\<close>

fun newHoles :: "Library \<Rightarrow> Polyline list \<Rightarrow> error + Polyline list" where
  "newHoles S [] = Inr []"
| "newHoles S (hole # rest) =
     (if isClosed hole = False then Inl (Error ''Hole must be closed to turn into polygon'')
      else case newHoles S rest of
             Inl e \<Rightarrow> Inl e
           | Inr hs \<Rightarrow> Inr (Polyline_withOrientation S hole clockwise # hs))"

text \<open>The constructor; the optional parameter \<^verbatim>\<open>holes\<close> is \<open>None\<close> when undefined.\<close>

definition Polygon_new :: "Library \<Rightarrow> Polyline \<Rightarrow> Polyline list option \<Rightarrow> error + Polygon" where
  "Polygon_new S boundary' holes' =
     (if isClosed boundary' = False
      then Inl (Error ''Boundary must be closed to turn into polygon'')
      else case holes' of
             None \<Rightarrow>
               Inr \<lparr>boundary = Polyline_withOrientation S boundary' counterclockwise,
                    holes = []\<rparr>
           | Some hs \<Rightarrow>
               (case newHoles S hs of
                  Inl e \<Rightarrow> Inl e
                | Inr nh \<Rightarrow>
                    Inr \<lparr>boundary = Polyline_withOrientation S boundary' counterclockwise,
                         holes = nh\<rparr>))"

text \<open>\<^verbatim>\<open>Polygon.fromCoords\<close>.\<close>

definition Polygon_fromCoords :: "Library \<Rightarrow> pcPolygon \<Rightarrow> error + Polygon" where
  "Polygon_fromCoords S coordinates =
     (if length coordinates = 0
      then Inl (RangeError ''Coordiante of polygon must have a length'')
      else if length coordinates = 1
      then Polygon_new S (Polyline_fromCoords S (coordinates ! 0)) None
      else Polygon_new S (Polyline_fromCoords S (coordinates ! 0))
             (Some (map (\<lambda>i. Polyline_fromCoords S (coordinates ! i))
                        [1..<length coordinates])))"

text \<open>The loop of \<^verbatim>\<open>contains\<close> over the holes.\<close>

fun contains_holes :: "Library \<Rightarrow> Polyline list \<Rightarrow> Point \<Rightarrow> real \<Rightarrow> PointContainment" where
  "contains_holes S [] point tolerance = inside"
| "contains_holes S (hole # rest) point tolerance =
     (let holeContainment = Polyline_contains S hole point tolerance
      in if holeContainment = inside then outside
         else if holeContainment = coincident then coincident
         else contains_holes S rest point tolerance)"

text \<open>\<^verbatim>\<open>Polygon.contains\<close>; the tolerance defaults to the setting.\<close>

definition Polygon_contains :: "Library \<Rightarrow> Polygon \<Rightarrow> Point \<Rightarrow> real option \<Rightarrow> PointContainment" where
  "Polygon_contains S this point tolerance' =
     (let tolerance = (case tolerance' of None \<Rightarrow> absoluteTolerance S | Some t \<Rightarrow> t);
          boundaryContainment = Polyline_contains S (boundary this) point tolerance
      in if boundaryContainment \<noteq> inside then boundaryContainment
         else contains_holes S (holes this) point tolerance)"

text \<open>\<^verbatim>\<open>Polygon.asGeoJSON\<close>.\<close>

definition Polygon_asGeoJSON :: "Library \<Rightarrow> Polygon \<Rightarrow> pcPolygon" where
  "Polygon_asGeoJSON S this =
     Polyline_asGeoJSON S (boundary this) # map (Polyline_asGeoJSON S) (holes this)"

text \<open>
  The operand of a boolean operation, as its parameter is typed:
  \<^verbatim>\<open>Polyline | Polygon | readonly Polyline[] | readonly Polygon[]\<close>. The empty array is
  a value of both array types. \<open>as_any\<close> is the value a type guard receives; a guard that
  succeeds narrows the operand to the array type it names.
\<close>

datatype operand =
    OPolyline Polyline
  | OPolygon Polygon
  | OPolylines "Polyline list"
  | OPolygons "Polygon list"

fun as_any :: "operand \<Rightarrow> any" where
  "as_any (OPolyline p) = APolyline p"
| "as_any (OPolygon p) = APolygon p"
| "as_any (OPolylines ps) = AArray (map APolyline ps)"
| "as_any (OPolygons ps) = AArray (map APolygon ps)"

fun as_Polylines :: "operand \<Rightarrow> Polyline list" where
  "as_Polylines (OPolylines ps) = ps"
| "as_Polylines v = []"

fun as_Polygons :: "operand \<Rightarrow> Polygon list" where
  "as_Polygons (OPolygons ps) = ps"
| "as_Polygons v = []"

text \<open>The helper \<^verbatim>\<open>toMulti\<close>.\<close>

definition toMulti :: "Library \<Rightarrow> operand \<Rightarrow> error + Geom" where
  "toMulti S input =
     (case input of
        OPolyline p \<Rightarrow> Inr (GeomPolygon [Polyline_asGeoJSON S p])
      | OPolygon p \<Rightarrow> Inr (GeomPolygon (Polygon_asGeoJSON S p))
      | _ \<Rightarrow>
          if isPolylineArray (as_any input)
          then Inr (GeomMultiPolygon
                      (map (\<lambda>polyline. [Polyline_asGeoJSON S polyline]) (as_Polylines input)))
          else if isPolygonArray (as_any input)
          then Inr (GeomMultiPolygon
                      (map (\<lambda>polyline. Polygon_asGeoJSON S polyline) (as_Polygons input)))
          else Inl (Error ''Couldn't convert geometry for boolean''))"

text \<open>The helper \<^verbatim>\<open>fromGeoJSON\<close>: a piece with no ring is skipped.\<close>

fun fromGeoJSON :: "Library \<Rightarrow> MultiPolygon \<Rightarrow> error + Polygon list" where
  "fromGeoJSON S [] = Inr []"
| "fromGeoJSON S (polygon # rest) =
     (if length polygon = 0 then fromGeoJSON S rest
      else case Polygon_fromCoords S polygon of
             Inl e \<Rightarrow> Inl e
           | Inr p \<Rightarrow>
               (case fromGeoJSON S rest of
                  Inl e \<Rightarrow> Inl e
                | Inr outputs \<Rightarrow> Inr (p # outputs)))"

text \<open>\<^verbatim>\<open>union\<close>, \<^verbatim>\<open>intersection\<close> and \<^verbatim>\<open>difference\<close>.\<close>

definition Polygon_union :: "Library \<Rightarrow> Polygon \<Rightarrow> operand \<Rightarrow> error + Polygon list" where
  "Polygon_union S this joiner =
     (case toMulti S joiner of
        Inl e \<Rightarrow> Inl e
      | Inr m \<Rightarrow> fromGeoJSON S (pcUnion S (Polygon_asGeoJSON S this) m))"

definition Polygon_intersection :: "Library \<Rightarrow> Polygon \<Rightarrow> operand \<Rightarrow> error + Polygon list" where
  "Polygon_intersection S this intersector =
     (case toMulti S intersector of
        Inl e \<Rightarrow> Inl e
      | Inr m \<Rightarrow> fromGeoJSON S (pcIntersection S (Polygon_asGeoJSON S this) m))"

definition Polygon_difference :: "Library \<Rightarrow> Polygon \<Rightarrow> operand \<Rightarrow> error + Polygon list" where
  "Polygon_difference S this subtractor =
     (case toMulti S subtractor of
        Inl e \<Rightarrow> Inl e
      | Inr m \<Rightarrow> fromGeoJSON S (pcDifference S (Polygon_asGeoJSON S this) m))"

section \<open>A reference library\<close>

text \<open>
  Modelled from the spec: the external collaborators of sections 4.1 and 6 (the pairwise
  solvers, the methods of the shape classes and the ring-clipping primitive), none of which
  is among the embedded sources. The definitions of this section are the textbook
  formulas; they make up one value \<open>Std\<close> of the record \<open>Library\<close>, at which the
  dispatch is evaluated on explicit shapes. No theorem about the dispatch depends on them:
  each is stated for an arbitrary \<open>Library\<close>.
\<close>

fun vec :: "Point \<Rightarrow> Point \<Rightarrow> Vector" where
  "vec (Point ax ay) (Point bx by) = Vector (bx - ax) (by - ay)"

fun dot :: "Vector \<Rightarrow> Vector \<Rightarrow> real" where
  "dot (Vector ax ay) (Vector bx by) = ax * bx + ay * by"

fun cross :: "Vector \<Rightarrow> Vector \<Rightarrow> real" where
  "cross (Vector ax ay) (Vector bx by) = ax * by - ay * bx"

fun along :: "Point \<Rightarrow> Vector \<Rightarrow> real \<Rightarrow> Point" where
  "along (Point ox oy) (Vector dx dy) t = Point (ox + t * dx) (oy + t * dy)"

text \<open>
  Modelled from the spec: the parameters of the point where two carriers \<open>a + s r\<close> and
  \<open>b + t q\<close> meet ("the parametric location(s) along each participant"); none when
  they are parallel.
\<close>

definition meet :: "Point \<Rightarrow> Vector \<Rightarrow> Point \<Rightarrow> Vector \<Rightarrow> (real \<times> real) option" where
  "meet a r b q =
     (let d = cross r q
      in if d = 0 then None
         else Some (cross (vec a b) q / d, cross (vec a b) r / d))"

text \<open>Modelled from the spec: \<^verbatim>\<open>lineLine\<close>, both lines bounded segments.\<close>

fun std_lineLine :: "Line \<Rightarrow> Line \<Rightarrow> LineLineResult" where
  "std_lineLine (Line a a') (Line b b') =
     (case meet a (vec a a') b (vec b b') of
        None \<Rightarrow> \<lparr>intersects = False, lineAU = 0, lineBU = 0\<rparr>
      | Some (s, t) \<Rightarrow>
          \<lparr>intersects = (0 \<le> s \<and> s \<le> 1 \<and> 0 \<le> t \<and> t \<le> 1), lineAU = s, lineBU = t\<rparr>)"

text \<open>Modelled from the spec: \<^verbatim>\<open>rayLine\<close>; the third argument lets the ray run both ways.\<close>

fun std_rayLine :: "Ray \<Rightarrow> Line \<Rightarrow> bool option \<Rightarrow> RayLineResult" where
  "std_rayLine (Ray a r) (Line b b') bothSides =
     (case meet a r b (vec b b') of
        None \<Rightarrow> \<lparr>intersects = False, rayU = 0, lineU = 0\<rparr>
      | Some (s, t) \<Rightarrow>
          \<lparr>intersects = ((bothSides = Some True \<or> 0 \<le> s) \<and> 0 \<le> t \<and> t \<le> 1),
           rayU = s, lineU = t\<rparr>)"

text \<open>Modelled from the spec: \<^verbatim>\<open>rayRay\<close>.\<close>

fun std_rayRay :: "Ray \<Rightarrow> Ray \<Rightarrow> RayRayResult" where
  "std_rayRay (Ray a r) (Ray b q) =
     (case meet a r b q of
        None \<Rightarrow> \<lparr>intersects = False, rayAU = 0, rayBU = 0\<rparr>
      | Some (s, t) \<Rightarrow> \<lparr>intersects = (0 \<le> s \<and> 0 \<le> t), rayAU = s, rayBU = t\<rparr>)"

text \<open>
  Modelled from the spec: the roots of a carrier against a circle, in ascending order, for
  \<^verbatim>\<open>lineCircle\<close> (roots on the segment) and \<^verbatim>\<open>rayCircle\<close> (roots on the ray).
\<close>

fun circle_roots :: "Point \<Rightarrow> Vector \<Rightarrow> Circle \<Rightarrow> real list" where
  "circle_roots a d (Circle c r) =
     (let f = vec c a;
          k2 = dot d d;
          k1 = 2 * dot f d;
          k0 = dot f f - r * r;
          disc = k1 * k1 - 4 * k2 * k0
      in if k2 = 0 \<or> disc < 0 then []
         else if disc = 0 then [- k1 / (2 * k2)]
         else [(- k1 - sqrt disc) / (2 * k2), (- k1 + sqrt disc) / (2 * k2)])"

fun std_lineCircle :: "Line \<Rightarrow> Circle \<Rightarrow> CircleResult" where
  "std_lineCircle (Line a a') c =
     \<lparr>u = filter (\<lambda>t. 0 \<le> t \<and> t \<le> 1) (circle_roots a (vec a a') c)\<rparr>"

fun std_rayCircle :: "Ray \<Rightarrow> Circle \<Rightarrow> CircleResult" where
  "std_rayCircle (Ray a r) c = \<lparr>u = filter (\<lambda>t. 0 \<le> t) (circle_roots a r c)\<rparr>"

text \<open>
  Modelled from the spec: \<^verbatim>\<open>lineBox\<close> and \<^verbatim>\<open>rayBox\<close>, the fast reject of rule 6 ("if
  the query's infinite extent never enters the box"). On each axis the carrier is inside
  the interval of the box for a range of parameters; the carrier enters the box when the
  ranges of the two axes (and of the ray) have a parameter in common.
\<close>

fun slab :: "real \<Rightarrow> real \<Rightarrow> IntervalSorted \<Rightarrow> bool \<times> real list \<times> real list" where
  "slab a d (IntervalSorted lo hi) =
     (if d = 0 then (lo \<le> a \<and> a \<le> hi, [], [])
      else (True, [min ((lo - a) / d) ((hi - a) / d)], [max ((lo - a) / d) ((hi - a) / d)]))"

fun enters :: "Point \<Rightarrow> Vector \<Rightarrow> BoundingBox \<Rightarrow> real list \<Rightarrow> bool" where
  "enters (Point ax ay) (Vector dx dy) (BoundingBox xRange yRange) lows =
     (case (slab ax dx xRange, slab ay dy yRange) of
        ((okx, lx, ux), (oky, ly, uy)) \<Rightarrow>
          okx \<and> oky \<and> list_all (\<lambda>lo. list_all (\<lambda>hi. lo \<le> hi) (ux @ uy)) (lows @ lx @ ly))"

fun std_lineBox :: "Line \<Rightarrow> BoundingBox \<Rightarrow> Intersects" where
  "std_lineBox (Line a a') box = \<lparr>intersects = enters a (vec a a') box []\<rparr>"

fun std_rayBox :: "Ray \<Rightarrow> BoundingBox \<Rightarrow> Intersects" where
  "std_rayBox (Ray a r) box = \<lparr>intersects = enters a r box [0]\<rparr>"

text \<open>
  Modelled from the spec: \<^verbatim>\<open>closestParameter\<close> and \<^verbatim>\<open>pointAt\<close> of Line and Ray
  (section 3: \<open>t = 0\<close> is the start and, for a Line, \<open>t = 1\<close> is the end; a Ray has
  \<open>t \<ge> 0\<close>). The flag of the Line methods limits the parameter to the segment.
\<close>

definition limit :: "bool \<Rightarrow> real \<Rightarrow> real" where
  "limit limitToFiniteSegment t =
     (if limitToFiniteSegment then (if t < 0 then 0 else if 1 < t then 1 else t) else t)"

fun std_Line_closestParameter :: "Line \<Rightarrow> Point \<Rightarrow> bool \<Rightarrow> real" where
  "std_Line_closestParameter (Line a a') p limitToFiniteSegment =
     limit limitToFiniteSegment (dot (vec a p) (vec a a') / dot (vec a a') (vec a a'))"

fun std_Line_pointAt :: "Line \<Rightarrow> real \<Rightarrow> bool \<Rightarrow> Point" where
  "std_Line_pointAt (Line a a') t limitToFiniteSegment =
     along a (vec a a') (limit limitToFiniteSegment t)"

fun std_Ray_closestParameter :: "Ray \<Rightarrow> Point \<Rightarrow> real" where
  "std_Ray_closestParameter (Ray a r) p = max 0 (dot (vec a p) r / dot r r)"

fun std_Ray_pointAt :: "Ray \<Rightarrow> real \<Rightarrow> Point" where
  "std_Ray_pointAt (Ray a r) t = along a r t"

text \<open>
  Modelled from the spec: a Polyline from its points (section 3: the segments are the
  lines of each consecutive pair, wrapping if closed) with the box around its points.
\<close>

fun grow :: "BoundingBox \<Rightarrow> Point \<Rightarrow> BoundingBox" where
  "grow (BoundingBox (IntervalSorted x0 x1) (IntervalSorted y0 y1)) (Point px py) =
     BoundingBox (IntervalSorted (min x0 px) (max x1 px)) (IntervalSorted (min y0 py) (max y1 py))"

fun around :: "Point list \<Rightarrow> BoundingBox" where
  "around [] = BoundingBox (IntervalSorted 0 0) (IntervalSorted 0 0)"
| "around (Point px py # ps) =
     foldl grow (BoundingBox (IntervalSorted px px) (IntervalSorted py py)) ps"

definition through :: "Point list \<Rightarrow> bool \<Rightarrow> Polyline" where
  "through ps wrap =
     \<lparr>points = ps, isClosed = wrap,
      segments = map (\<lambda>(a, b). Line a b) (zip ps (tl ps @ (if wrap then take 1 ps else []))),
      boundingBox = around ps\<rparr>"

text \<open>
  Modelled from the spec: the methods of BoundingBox (section 4.1) and the \<^verbatim>\<open>boundingBox\<close>
  getters of Line and Circle. \<^verbatim>\<open>toPolyline\<close> is the closed polyline
  (min,min), (max,min), (max,max), (min,max); \<^verbatim>\<open>contains\<close> is true within
  [min - tol, max + tol] on both axes and, when strict, excludes the boundary;
  \<^verbatim>\<open>overlaps\<close> is the overlap of the intervals on both axes, touching included.
\<close>

fun std_toPolyline :: "BoundingBox \<Rightarrow> Polyline" where
  "std_toPolyline (BoundingBox (IntervalSorted x0 x1) (IntervalSorted y0 y1)) =
     through [Point x0 y0, Point x1 y0, Point x1 y1, Point x0 y1] True"

fun inRange :: "IntervalSorted \<Rightarrow> real \<Rightarrow> bool \<Rightarrow> real \<Rightarrow> bool" where
  "inRange (IntervalSorted lo hi) v strict tol =
     (if strict then lo + tol < v \<and> v < hi - tol else lo - tol \<le> v \<and> v \<le> hi + tol)"

fun std_contains :: "BoundingBox \<Rightarrow> Point \<Rightarrow> bool \<Rightarrow> real \<Rightarrow> bool" where
  "std_contains (BoundingBox xRange yRange) (Point px py) strict tol =
     (inRange xRange px strict tol \<and> inRange yRange py strict tol)"

fun std_overlaps :: "BoundingBox \<Rightarrow> BoundingBox \<Rightarrow> bool" where
  "std_overlaps (BoundingBox (IntervalSorted ax0 ax1) (IntervalSorted ay0 ay1))
                (BoundingBox (IntervalSorted bx0 bx1) (IntervalSorted by0 by1)) =
     (ax0 \<le> bx1 \<and> bx0 \<le> ax1 \<and> ay0 \<le> by1 \<and> by0 \<le> ay1)"

fun std_Line_boundingBox :: "Line \<Rightarrow> BoundingBox" where
  "std_Line_boundingBox (Line a a') = around [a, a']"

fun std_Circle_boundingBox :: "Circle \<Rightarrow> BoundingBox" where
  "std_Circle_boundingBox (Circle (Point cx cy) r) =
     BoundingBox (IntervalSorted (cx - r) (cx + r)) (IntervalSorted (cy - r) (cy + r))"

text \<open>
  Modelled from the spec: the methods of Polyline that polygon.ts calls. A ring is a closed
  loop whose last pair repeats the first (glossary); the orientation of a loop is the sign
  of its shoelace area (section 8); \<^verbatim>\<open>contains\<close> is coincident within the tolerance of an
  edge and otherwise decided by the even-odd rule (section 4.4).
\<close>

definition std_fromCoords :: "Ring \<Rightarrow> Polyline" where
  "std_fromCoords ring =
     (let ps = map (\<lambda>(px, py). Point px py) ring
      in if 2 \<le> length ps \<and> hd ps = last ps then through (butlast ps) True
         else through ps False)"

fun pair :: "Point \<Rightarrow> real \<times> real" where
  "pair (Point px py) = (px, py)"

definition std_asGeoJSON :: "Polyline \<Rightarrow> Ring" where
  "std_asGeoJSON pl =
     map pair (points pl @ (if isClosed pl then take 1 (points pl) else []))"

fun origin_cross :: "Line \<Rightarrow> real" where
  "origin_cross (Line (Point ax ay) (Point bx by)) = ax * by - bx * ay"

definition shoelace :: "Polyline \<Rightarrow> real" where
  "shoelace pl = sum_list (map origin_cross (segments pl)) / 2"

definition std_withOrientation :: "Polyline \<Rightarrow> CurveOrientation \<Rightarrow> Polyline" where
  "std_withOrientation pl goal =
     (if shoelace pl = 0 \<or> (0 < shoelace pl) = (goal = counterclockwise) then pl
      else through (rev (points pl)) (isClosed pl))"

fun near :: "real \<Rightarrow> Point \<Rightarrow> Line \<Rightarrow> bool" where
  "near tol p (Line a a') =
     (let q = std_Line_pointAt (Line a a') (std_Line_closestParameter (Line a a') p True) True
      in dot (vec p q) (vec p q) \<le> tol * tol)"

fun crosses :: "Point \<Rightarrow> Line \<Rightarrow> bool" where
  "crosses (Point px py) (Line (Point ax ay) (Point bx by)) =
     ((py < ay) \<noteq> (py < by) \<and> px < ax + (py - ay) * (bx - ax) / (by - ay))"

definition std_Polyline_contains :: "Polyline \<Rightarrow> Point \<Rightarrow> real \<Rightarrow> PointContainment" where
  "std_Polyline_contains pl p tol =
     (if list_ex (near tol p) (segments pl) then coincident
      else if odd (length (filter (crosses p) (segments pl))) then inside
      else outside)"

text \<open>
  Modelled from the spec: the ring-clipping primitive (section 6), on operands that lie
  apart from each other, where the pieces of the result are the operands' own: the union
  is the receiver and the pieces of the operand, the intersection is empty, and the
  difference is the receiver.
\<close>

fun pieces :: "Geom \<Rightarrow> MultiPolygon" where
  "pieces (GeomPolygon p) = [p]"
| "pieces (GeomMultiPolygon ps) = ps"

definition apart_union :: "pcPolygon \<Rightarrow> Geom \<Rightarrow> MultiPolygon" where
  "apart_union subject clip = subject # pieces clip"

definition apart_intersection :: "pcPolygon \<Rightarrow> Geom \<Rightarrow> MultiPolygon" where
  "apart_intersection subject clip = []"

definition apart_difference :: "pcPolygon \<Rightarrow> Geom \<Rightarrow> MultiPolygon" where
  "apart_difference subject clip = [subject]"

definition Std :: Library where
  "Std =
     \<lparr>lineLine = std_lineLine,
      rayLine = std_rayLine,
      rayRay = std_rayRay,
      lineCircle = std_lineCircle,
      rayCircle = std_rayCircle,
      lineBox = std_lineBox,
      rayBox = std_rayBox,
      Line_closestParameter = std_Line_closestParameter,
      Line_pointAt = std_Line_pointAt,
      Ray_closestParameter = std_Ray_closestParameter,
      Ray_pointAt = std_Ray_pointAt,
      Line_boundingBox = std_Line_boundingBox,
      Circle_boundingBox = std_Circle_boundingBox,
      BoundingBox_toPolyline = std_toPolyline,
      BoundingBox_contains = std_contains,
      BoundingBox_overlaps = std_overlaps,
      BoundingBox_overlaps_undefined = (\<lambda>box. Inl TypeError),
      absoluteTolerance = 1 / 1000,
      Polyline_fromCoords = std_fromCoords,
      Polyline_asGeoJSON = std_asGeoJSON,
      Polyline_withOrientation = std_withOrientation,
      Polyline_contains = std_Polyline_contains,
      pcUnion = apart_union,
      pcIntersection = apart_intersection,
      pcDifference = apart_difference\<rparr>"





section \<open>Shapes for evaluation\<close>

text \<open>
  The unit square and an open path; the square of side 4 with the square hole from (1,1)
  to (3,3) of section 8 of the specification; and a polygon whose hole lies outside its
  boundary, which the constructor accepts, since it checks only that the loops are closed.
\<close>

definition unit_square :: Polyline where
  "unit_square = through [Point 0 0, Point 1 0, Point 1 1, Point 0 1] True"

definition open_path :: Polyline where
  "open_path = through [Point 0 0, Point 1 0] False"

definition square4 :: Polyline where
  "square4 = through [Point 0 0, Point 4 0, Point 4 4, Point 0 4] True"

definition inner_square :: Polyline where
  "inner_square = through [Point 1 1, Point 1 3, Point 3 3, Point 3 1] True"

definition holed :: Polygon where
  "holed = \<lparr>boundary = square4, holes = [inner_square]\<rparr>"

definition far_square :: Polyline where
  "far_square = through [Point 10 10, Point 10 12, Point 12 12, Point 12 10] True"

definition stray :: Polygon where
  "stray = \<lparr>boundary = unit_square, holes = [far_square]\<rparr>"

text \<open>
  A piece as the clipping primitive may emit it: the outer ring clockwise and the inner
  ring counterclockwise, each ring closed by repeating its first pair.
\<close>

definition wound_piece :: pcPolygon where
  "wound_piece =
     [[(0, 0), (0, 4), (4, 4), (4, 0), (0, 0)], [(1, 1), (3, 1), (3, 3), (1, 3), (1, 1)]]"

section \<open>The specification's wording\<close>

text \<open>
  Rule 7 of section 4.2 as the specification words it: rule 6 (which is \<open>line\<close>, or
  \<open>ray\<close>, on a Polyline target) applied independently to the boundary and to each hole,
  concatenated and sorted ascending.
\<close>

definition line_rule7 :: "Library \<Rightarrow> Line \<Rightarrow> Polygon \<Rightarrow> real list" where
  "line_rule7 S theLine P =
     sort (concat (map (\<lambda>loop. line S theLine (GPolyline loop)) (boundary P # holes P)))"

definition ray_rule7 :: "Library \<Rightarrow> Ray \<Rightarrow> Polygon \<Rightarrow> real list" where
  "ray_rule7 S theRay P =
     sort (concat (map (\<lambda>loop. ray S theRay (GPolyline loop)) (boundary P # holes P)))"

text \<open>The ascending merge of two ascending lists; equal values are all kept.\<close>

fun ascending_merge :: "real list \<Rightarrow> real list \<Rightarrow> real list" where
  "ascending_merge [] bs = bs"
| "ascending_merge as [] = as"
| "ascending_merge (a # as) (b # bs) =
     (if a \<le> b then a # ascending_merge as (b # bs)
      else b # ascending_merge (a # as) bs)"

text \<open>
  Section 4.3: a piece is rehydrated with its first ring as the boundary and the remaining
  rings as holes, the boundary forced one way and the holes the other.
\<close>

definition rehydrate :: "Library \<Rightarrow> pcPolygon \<Rightarrow> Polygon" where
  "rehydrate S piece =
     \<lparr>boundary = Polyline_withOrientation S (Polyline_fromCoords S (hd piece)) counterclockwise,
      holes = map (\<lambda>ring. Polyline_withOrientation S (Polyline_fromCoords S ring) clockwise)
                  (tl piece)\<rparr>"

text \<open>
  The solvers report a parameter along a Line within the segment: between 0 and 1
  (section 4.2, rule 8, takes the segment-local parameter from this range).
\<close>

definition unit_parameters :: "Library \<Rightarrow> bool" where
  "unit_parameters S \<longleftrightarrow>
     (\<forall>l p. 0 \<le> Line_closestParameter S l p True \<and> Line_closestParameter S l p True \<le> 1) \<and>
     (\<forall>a b. intersects (lineLine S a b) \<longrightarrow>
            0 \<le> lineAU (lineLine S a b) \<and> lineAU (lineLine S a b) \<le> 1) \<and>
     (\<forall>r l. intersects (rayLine S r l (Some False)) \<longrightarrow>
            0 \<le> lineU (rayLine S r l (Some False)) \<and> lineU (rayLine S r l (Some False)) \<le> 1) \<and>
     (\<forall>l c. \<forall>t\<in>set (u (lineCircle S l c)). 0 \<le> t \<and> t \<le> 1)"

section \<open>Evaluation at the reference library\<close>

lemma Std_fields:
  "lineLine Std = std_lineLine"
  "rayLine Std = std_rayLine"
  "rayRay Std = std_rayRay"
  "lineCircle Std = std_lineCircle"
  "rayCircle Std = std_rayCircle"
  "lineBox Std = std_lineBox"
  "rayBox Std = std_rayBox"
  "Line_closestParameter Std = std_Line_closestParameter"
  "Line_pointAt Std = std_Line_pointAt"
  "Ray_closestParameter Std = std_Ray_closestParameter"
  "Ray_pointAt Std = std_Ray_pointAt"
  "Line_boundingBox Std = std_Line_boundingBox"
  "Circle_boundingBox Std = std_Circle_boundingBox"
  "BoundingBox_toPolyline Std = std_toPolyline"
  "BoundingBox_contains Std = std_contains"
  "BoundingBox_overlaps Std = std_overlaps"
  "BoundingBox_overlaps_undefined Std = (\<lambda>box. Inl TypeError)"
  "absoluteTolerance Std = 1 / 1000"
  "Polyline_fromCoords Std = std_fromCoords"
  "Polyline_asGeoJSON Std = std_asGeoJSON"
  "Polyline_withOrientation Std = std_withOrientation"
  "Polyline_contains Std = std_Polyline_contains"
  "pcUnion Std = apart_union"
  "pcIntersection Std = apart_intersection"
  "pcDifference Std = apart_difference"
  by (simp_all add: Std_def)

lemma shapes:
  "isClosed unit_square" "\<not> isClosed open_path" "isClosed far_square" "isClosed square4" "isClosed inner_square"
  by (simp_all add: unit_square_def open_path_def far_square_def square4_def inner_square_def through_def)

section \<open>Point containment\<close>

lemma contains_holes_inside_iff:
  "contains_holes S hs pt tol = inside \<longleftrightarrow> (\<forall>h\<in>set hs. Polyline_contains S h pt tol = outside)"
proof (induction hs)
  case Nil
  show ?case by simp
next
  case (Cons h hs)
  show ?case
    using Cons.IH by (cases "Polyline_contains S h pt tol") (simp_all add: Let_def)
qed

lemma contains_holes_first:
  "i < length hs \<Longrightarrow> \<forall>j<i. Polyline_contains S (hs ! j) pt tol = outside \<Longrightarrow>
   Polyline_contains S (hs ! i) pt tol \<noteq> outside \<Longrightarrow>
   contains_holes S hs pt tol =
     (if Polyline_contains S (hs ! i) pt tol = inside then outside else coincident)"
proof (induction hs arbitrary: i)
  case Nil
  then show ?case by simp
next
  case (Cons h hs)
  show ?case
  proof (cases i)
    case 0
    with Cons.prems show ?thesis
      by (cases "Polyline_contains S h pt tol") (simp_all add: Let_def)
  next
    case (Suc k)
    have h_out: "Polyline_contains S h pt tol = outside"
      using Cons.prems(2) Suc by (metis nth_Cons_0 zero_less_Suc)
    have "\<forall>j<k. Polyline_contains S (hs ! j) pt tol = outside"
      using Cons.prems(2) Suc by (metis Suc_less_eq nth_Cons_Suc)
    then have "contains_holes S hs pt tol =
        (if Polyline_contains S (hs ! k) pt tol = inside then outside else coincident)"
      using Cons.IH [of k] Cons.prems Suc by simp
    then show ?thesis
      using h_out Suc by (simp add: Let_def)
  qed
qed

text \<open>
  C4. For every Polygon and every point, \<^verbatim>\<open>contains\<close> returns the containment result of
  the boundary loop whenever that result is not inside. Otherwise it scans the holes in
  order: at the first hole that does not report outside it returns outside when that hole
  contains the point and coincident when the point is coincident with that hole's edge,
  without looking at the holes after it; it returns inside when every hole reports
  outside, and only then.
\<close>

theorem Polygon_contains_classification:
  "let tol = (case tolerance of None \<Rightarrow> absoluteTolerance S | Some t \<Rightarrow> t);
       bc = Polyline_contains S (boundary P) pt tol;
       hc = (\<lambda>h. Polyline_contains S h pt tol)
   in (bc \<noteq> inside \<longrightarrow> Polygon_contains S P pt tolerance = bc) \<and>
      (bc = inside \<and> i < length (holes P) \<and> (\<forall>j<i. hc (holes P ! j) = outside) \<and>
         hc (holes P ! i) = inside \<longrightarrow> Polygon_contains S P pt tolerance = outside) \<and>
      (bc = inside \<and> i < length (holes P) \<and> (\<forall>j<i. hc (holes P ! j) = outside) \<and>
         hc (holes P ! i) = coincident \<longrightarrow> Polygon_contains S P pt tolerance = coincident) \<and>
      (bc = inside \<and> (\<forall>h\<in>set (holes P). hc h = outside) \<longrightarrow>
         Polygon_contains S P pt tolerance = inside) \<and>
      (Polygon_contains S P pt tolerance = inside \<longrightarrow>
         bc = inside \<and> (\<forall>h\<in>set (holes P). hc h = outside))"
proof -
  define tol where "tol = (case tolerance of None \<Rightarrow> absoluteTolerance S | Some t \<Rightarrow> t)"
  define bc where "bc = Polyline_contains S (boundary P) pt tol"
  have unfold: "Polygon_contains S P pt tolerance =
      (if bc \<noteq> inside then bc else contains_holes S (holes P) pt tol)"
    by (simp add: Polygon_contains_def tol_def bc_def Let_def)
  have a: "bc \<noteq> inside \<Longrightarrow> Polygon_contains S P pt tolerance = bc"
    by (simp add: unfold)
  have b: "Polygon_contains S P pt tolerance = outside"
    if "bc = inside" "i < length (holes P)"
      "\<forall>j<i. Polyline_contains S (holes P ! j) pt tol = outside"
      "Polyline_contains S (holes P ! i) pt tol = inside"
    using that contains_holes_first [of i "holes P" S pt tol] by (simp add: unfold)
  have c: "Polygon_contains S P pt tolerance = coincident"
    if "bc = inside" "i < length (holes P)"
      "\<forall>j<i. Polyline_contains S (holes P ! j) pt tol = outside"
      "Polyline_contains S (holes P ! i) pt tol = coincident"
    using that contains_holes_first [of i "holes P" S pt tol] by (simp add: unfold)
  have d: "Polygon_contains S P pt tolerance = inside \<longleftrightarrow>
      bc = inside \<and> (\<forall>h\<in>set (holes P). Polyline_contains S h pt tol = outside)"
    by (auto simp: unfold contains_holes_inside_iff)
  show ?thesis
    unfolding Let_def tol_def [symmetric] bc_def [symmetric]
    using a b c d by blast
qed

text \<open>
  The scenario of section 8 of the specification: the point (5,1) is outside the boundary,
  (2,2) is inside the hole, (1,1) is on the hole's edge, and (1/2,1/2) clears the hole.
\<close>

theorem Polygon_contains_classification_witness:
  "Polyline_contains Std (boundary holed) (Point 5 1) (1 / 1000) = outside \<and>
   Polygon_contains Std holed (Point 5 1) None = outside \<and>
   Polyline_contains Std (boundary holed) (Point 2 2) (1 / 1000) = inside \<and>
   Polyline_contains Std (holes holed ! 0) (Point 2 2) (1 / 1000) = inside \<and>
   Polygon_contains Std holed (Point 2 2) None = outside \<and>
   Polyline_contains Std (boundary holed) (Point 1 1) (1 / 1000) = inside \<and>
   Polyline_contains Std (holes holed ! 0) (Point 1 1) (1 / 1000) = coincident \<and>
   Polygon_contains Std holed (Point 1 1) None = coincident \<and>
   Polyline_contains Std (boundary holed) (Point (1 / 2) (1 / 2)) (1 / 1000) = inside \<and>
   Polyline_contains Std (holes holed ! 0) (Point (1 / 2) (1 / 2)) (1 / 1000) = outside \<and>
   Polygon_contains Std holed (Point (1 / 2) (1 / 2)) None = inside"
proof -
  have b1: "std_Polyline_contains square4 (Point 5 1) (1 / 1000) = outside"
    by (simp add: std_Polyline_contains_def square4_def through_def limit_def)
  have b2: "std_Polyline_contains square4 (Point 2 2) (1 / 1000) = inside"
    by (simp add: std_Polyline_contains_def square4_def through_def limit_def)
  have b3: "std_Polyline_contains square4 (Point 1 1) (1 / 1000) = inside"
    by (simp add: std_Polyline_contains_def square4_def through_def limit_def)
  have b4: "std_Polyline_contains square4 (Point (1 / 2) (1 / 2)) (1 / 1000) = inside"
    by (simp add: std_Polyline_contains_def square4_def through_def limit_def)
  have h2: "std_Polyline_contains inner_square (Point 2 2) (1 / 1000) = inside"
    by (simp add: std_Polyline_contains_def inner_square_def through_def limit_def)
  have h3: "std_Polyline_contains inner_square (Point 1 1) (1 / 1000) = coincident"
    by (simp add: std_Polyline_contains_def inner_square_def through_def limit_def)
  have h4: "std_Polyline_contains inner_square (Point (1 / 2) (1 / 2)) (1 / 1000) = outside"
    by (simp add: std_Polyline_contains_def inner_square_def through_def limit_def)
  show ?thesis
    using Polygon_contains_classification [where S = Std and P = holed and pt = "Point 5 1" and tolerance = None]
      Polygon_contains_classification [where S = Std and P = holed and pt = "Point 2 2" and tolerance = None and i = 0]
      Polygon_contains_classification [where S = Std and P = holed and pt = "Point 1 1" and tolerance = None and i = 0]
      Polygon_contains_classification [where S = Std and P = holed and pt = "Point (1 / 2) (1 / 2)" and tolerance = None]
    by (simp add: Std_fields holed_def b1 b2 b3 b4 h2 h3 h4 Let_def)
qed

section \<open>Construction of a Polygon\<close>

lemma newHoles_closed:
  "\<forall>h\<in>set l. isClosed h \<Longrightarrow>
   newHoles S l = Inr (map (\<lambda>h. Polyline_withOrientation S h clockwise) l)"
  by (induction l) simp_all

lemma newHoles_open:
  "\<exists>h\<in>set l. \<not> isClosed h \<Longrightarrow>
   newHoles S l = Inl (Error ''Hole must be closed to turn into polygon'')"
  by (induction l) (auto split: sum.splits)

text \<open>
  C9. Constructing a Polygon from a boundary that is not closed raises an error (invalid
  geometry: the boundary must be closed), and so does constructing it with a hole that is
  not closed; \<^verbatim>\<open>fromCoords\<close> on an empty list of rings raises a RangeError; and the
  construction succeeds for every closed boundary, without holes or with closed holes,
  with nothing else validated: the result is the boundary turned counterclockwise and the
  holes turned clockwise.
\<close>

theorem Polygon_construction:
  "(\<not> isClosed b \<longrightarrow>
      Polygon_new S b hs = Inl (Error ''Boundary must be closed to turn into polygon'')) \<and>
   (isClosed b \<and> (\<exists>h\<in>set l. \<not> isClosed h) \<longrightarrow>
      Polygon_new S b (Some l) = Inl (Error ''Hole must be closed to turn into polygon'')) \<and>
   (isClosed b \<longrightarrow>
      Polygon_new S b None =
        Inr \<lparr>boundary = Polyline_withOrientation S b counterclockwise, holes = []\<rparr>) \<and>
   (isClosed b \<and> (\<forall>h\<in>set l. isClosed h) \<longrightarrow>
      Polygon_new S b (Some l) =
        Inr \<lparr>boundary = Polyline_withOrientation S b counterclockwise,
             holes = map (\<lambda>h. Polyline_withOrientation S h clockwise) l\<rparr>) \<and>
   Polygon_fromCoords S [] = Inl (RangeError ''Coordiante of polygon must have a length'')"
  by (simp add: Polygon_new_def Polygon_fromCoords_def newHoles_closed newHoles_open)

theorem Polygon_construction_witness:
  "\<not> isClosed open_path \<and>
   Polygon_new Std open_path None = Inl (Error ''Boundary must be closed to turn into polygon'') \<and>
   isClosed unit_square \<and>
   Polygon_new Std unit_square (Some [far_square, open_path]) =
     Inl (Error ''Hole must be closed to turn into polygon'') \<and>
   isClosed far_square \<and>
   Polygon_new Std unit_square None = Inr \<lparr>boundary = unit_square, holes = []\<rparr> \<and>
   Polygon_new Std unit_square (Some [far_square]) = Inr stray"
proof -
  have ccw: "std_withOrientation unit_square counterclockwise = unit_square"
    by (simp add: std_withOrientation_def shoelace_def unit_square_def through_def)
  have cw: "std_withOrientation far_square clockwise = far_square"
    by (simp add: std_withOrientation_def shoelace_def far_square_def through_def)
  show ?thesis
    using Polygon_construction [where S = Std and b = open_path and hs = None]
      Polygon_construction [where S = Std and b = unit_square and l = "[far_square, open_path]"]
      Polygon_construction [where S = Std and b = unit_square and l = "[far_square]"]
    by (simp add: shapes Std_fields ccw cw stray_def)
qed

section \<open>Boolean operations on an empty list\<close>

text \<open>
  C10. For every Polygon, \<^verbatim>\<open>union\<close>, \<^verbatim>\<open>intersection\<close> and \<^verbatim>\<open>difference\<close> with an empty
  list as the operand throw the error "Couldn't convert geometry for boolean": the type
  guards for arrays reject an array of length zero, and classify a longer one by its first
  element alone.
\<close>

theorem empty_list_operand_throws:
  "Polygon_union S this (OPolylines []) = Inl (Error ''Couldn't convert geometry for boolean'') \<and>
   Polygon_union S this (OPolygons []) = Inl (Error ''Couldn't convert geometry for boolean'') \<and>
   Polygon_intersection S this (OPolylines []) = Inl (Error ''Couldn't convert geometry for boolean'') \<and>
   Polygon_intersection S this (OPolygons []) = Inl (Error ''Couldn't convert geometry for boolean'') \<and>
   Polygon_difference S this (OPolylines []) = Inl (Error ''Couldn't convert geometry for boolean'') \<and>
   Polygon_difference S this (OPolygons []) = Inl (Error ''Couldn't convert geometry for boolean'') \<and>
   isPolylineArray (AArray []) = False \<and>
   isPolygonArray (AArray []) = False \<and>
   isPolylineArray (AArray (v # vs)) = isPolylineArray (AArray [v]) \<and>
   isPolygonArray (AArray (v # vs)) = isPolygonArray (AArray [v])"
proof -
  have none: "toMulti S (OPolylines []) = Inl (Error ''Couldn't convert geometry for boolean'')"
    "toMulti S (OPolygons []) = Inl (Error ''Couldn't convert geometry for boolean'')"
    by (simp_all add: toMulti_def)
  have first: "isPolylineArray (AArray (v # vs)) = isPolylineArray (AArray [v])"
    "isPolygonArray (AArray (v # vs)) = isPolygonArray (AArray [v])"
    by (cases v; simp)+
  show ?thesis
    using none first
    by (simp add: Polygon_union_def Polygon_intersection_def Polygon_difference_def)
qed

section \<open>Point targets\<close>

text \<open>
  C8. For every Line or Ray query and every Point target, the dispatch returns the
  singleton of the query's closest parameter to the point exactly when the point of the
  query at that parameter equals the target point (exact equality, not equality within a
  tolerance), and the empty list otherwise.
\<close>

theorem point_target_exact_hit:
  "line S theLine (GPoint target) =
     (if Line_pointAt S theLine (Line_closestParameter S theLine target True) True = target
      then [Line_closestParameter S theLine target True] else []) \<and>
   ray S theRay (GPoint target) =
     (if Ray_pointAt S theRay (Ray_closestParameter S theRay target) = target
      then [Ray_closestParameter S theRay target] else [])"
  by (simp add: Point_equals_def)

section \<open>List targets\<close>

lemma sort_cong_mset: "mset xs = mset ys \<Longrightarrow> sort xs = sort (ys :: real list)"
  by (rule properties_for_sort) simp_all

lemma mset_ascending_merge: "mset (ascending_merge as bs) = mset as + mset bs"
  by (induction as bs rule: ascending_merge.induct) simp_all

lemma sorted_ascending_merge:
  "sorted as \<Longrightarrow> sorted bs \<Longrightarrow> sorted (ascending_merge as bs)"
proof (induction as bs rule: ascending_merge.induct)
  case (3 a as b bs)
  have members: "set (ascending_merge xs ys) = set xs \<union> set ys" for xs ys
    using mset_ascending_merge [of xs ys] by (metis set_mset_mset set_mset_union)
  from 3 show ?case
    by (auto simp: members)
qed simp_all

lemma ascending_merge_sort:
  "sorted as \<Longrightarrow> sorted bs \<Longrightarrow> ascending_merge as bs = sort (as @ bs)"
  by (rule properties_for_sort [symmetric])
     (simp_all add: mset_ascending_merge sorted_ascending_merge)

lemma line_box_example:
  "line Std (Line (Point (- 1) 1) (Point 5 1))
     (GBoundingBox (BoundingBox (IntervalSorted 0 4) (IntervalSorted 0 4))) = [1 / 6, 5 / 6]"
  by (simp add: Std_fields through_def linePolyline_def meet_def)

lemma line_point_example:
  "line Std (Line (Point (- 1) 1) (Point 5 1)) (GPoint (Point 0 1)) = [1 / 6]"
  by (simp add: Std_fields Point_equals_def limit_def)

text \<open>
  C6. For every Line \<open>L\<close> and every list of two targets, the intersection with the list is
  the concatenation of the intersections with the two targets, sorted ascending: it is
  ascending, it holds every value as often as the two results together do (no duplicate is
  removed), and it is the ascending merge of the two results whenever these are ascending.
\<close>

theorem line_pair_list_merge:
  "line S L (GArray [g1, g2]) = sort (line S L g1 @ line S L g2) \<and>
   sorted (line S L (GArray [g1, g2])) \<and>
   mset (line S L (GArray [g1, g2])) = mset (line S L g1) + mset (line S L g2) \<and>
   (sorted (line S L g1) \<and> sorted (line S L g2) \<longrightarrow>
      line S L (GArray [g1, g2]) = ascending_merge (line S L g1) (line S L g2))"
  by (simp add: ascending_merge_sort)

text \<open>
  The line from (-1,1) to (5,1) against the box from (0,0) to (4,4) and the point (0,1) on
  its left edge: the parameter 1/6 is reported twice.
\<close>

theorem line_pair_list_merge_witness:
  "sorted (line Std (Line (Point (- 1) 1) (Point 5 1))
             (GBoundingBox (BoundingBox (IntervalSorted 0 4) (IntervalSorted 0 4)))) \<and>
   sorted (line Std (Line (Point (- 1) 1) (Point 5 1)) (GPoint (Point 0 1))) \<and>
   line Std (Line (Point (- 1) 1) (Point 5 1))
     (GArray [GBoundingBox (BoundingBox (IntervalSorted 0 4) (IntervalSorted 0 4)),
              GPoint (Point 0 1)]) =
     ascending_merge [1 / 6, 5 / 6] [1 / 6] \<and>
   ascending_merge [1 / 6, 5 / 6] [1 / 6] = [1 / 6, 1 / 6, 5 / 6 :: real]"
  using line_pair_list_merge
    [where S = Std and L = "Line (Point (- 1) 1) (Point 5 1)"
       and ?g1.0 = "GBoundingBox (BoundingBox (IntervalSorted 0 4) (IntervalSorted 0 4))"
       and ?g2.0 = "GPoint (Point 0 1)"]
  unfolding line_box_example line_point_example
  by simp

section \<open>Ascending order\<close>









lemma unit_square_corner:
  "polyline Std unit_square (GPoint (Point 0 0)) = Inr [0, 4]"
  by (simp add: unit_square_def through_def Std_fields polyline_segments_def Point_equals_def
      limit_def Set_spread_def upt_conv_Cons)



section \<open>Polygon targets\<close>

lemma mset_concat_map_sort:
  "mset (concat (map (\<lambda>h. sort (f h)) hs)) = mset (concat (map f hs :: real list list))"
  by (induction hs) simp_all

lemma sort_loops:
  "sort (sort xs @ concat (map (\<lambda>h. sort (f h)) hs)) = sort (xs @ concat (map f hs) :: real list)"
  by (rule sort_cong_mset) (simp add: mset_concat_map_sort)

text \<open>
  C1, as amended. For every Line or Ray query and every Polygon target, the dispatch first
  tests the query against the bounding box of the boundary. When the query misses that
  box the result is empty, and no hole is looked at. When the query meets it, the result
  is the ascending sort of the concatenation of rule 6 applied to the boundary and to each
  hole, each hole with the fast reject of its own bounding box.
\<close>

theorem polygon_target_gated_by_boundary_box:
  "line S theLine (GPolygon P) =
     (if intersects (lineBox S theLine (boundingBox (boundary P)))
      then line_rule7 S theLine P else []) \<and>
   ray S theRay (GPolygon P) =
     (if intersects (rayBox S theRay (boundingBox (boundary P)))
      then ray_rule7 S theRay P else [])"
proof -
  have "line S theLine (GPolygon P) = line_rule7 S theLine P"
    if "intersects (lineBox S theLine (boundingBox (boundary P)))"
    using that
      sort_loops [of "linePolyline S theLine (boundary P)"
        "\<lambda>hole. if intersects (lineBox S theLine (boundingBox hole))
                then linePolyline S theLine hole else []" "holes P"]
    by (simp add: line_rule7_def)
  moreover have "ray S theRay (GPolygon P) = ray_rule7 S theRay P"
    if "intersects (rayBox S theRay (boundingBox (boundary P)))"
    using that
      sort_loops [of "rayPolyline S theRay (boundary P)"
        "\<lambda>hole. if intersects (rayBox S theRay (boundingBox hole))
                then rayPolyline S theRay hole else []" "holes P"]
    by (simp add: ray_rule7_def)
  ultimately show ?thesis by simp
qed

text \<open>
  C1 as stated fails: the claim has an intersection with a hole reported also when the
  query misses the bounding box of the boundary. The polygon \<open>stray\<close> is what the
  constructor returns for the unit square with the hole from (10,10) to (12,12). The line
  from (9,11) to (13,11) and the ray from (9,11) along (1,0) cross that hole and miss the
  box of the boundary: rule 6 on each loop gives the two crossings, the dispatch gives
  none.
\<close>

theorem hole_outside_boundary_box_unreported:
  "Polygon_new Std unit_square (Some [far_square]) = Inr stray \<and>
   line Std (Line (Point 9 11) (Point 13 11)) (GPolygon stray) = [] \<and>
   line_rule7 Std (Line (Point 9 11) (Point 13 11)) stray = [1 / 4, 3 / 4] \<and>
   ray Std (Ray (Point 9 11) (Vector 1 0)) (GPolygon stray) = [] \<and>
   ray_rule7 Std (Ray (Point 9 11) (Vector 1 0)) stray = [1, 3]"
proof -
  have made: "Polygon_new Std unit_square (Some [far_square]) = Inr stray"
    by (simp add: Polygon_new_def Std_fields std_withOrientation_def shoelace_def stray_def
        unit_square_def far_square_def through_def)
  have l: "line Std (Line (Point 9 11) (Point 13 11)) (GPolygon stray) = []"
    by (simp add: stray_def unit_square_def far_square_def through_def Std_fields)
  have l7: "line_rule7 Std (Line (Point 9 11) (Point 13 11)) stray = [1 / 4, 3 / 4]"
    by (simp add: line_rule7_def stray_def unit_square_def far_square_def through_def Std_fields
        linePolyline_def meet_def)
  have r: "ray Std (Ray (Point 9 11) (Vector 1 0)) (GPolygon stray) = []"
    by (simp add: stray_def unit_square_def far_square_def through_def Std_fields)
  have r7: "ray_rule7 Std (Ray (Point 9 11) (Vector 1 0)) stray = [1, 3]"
    by (simp add: ray_rule7_def stray_def unit_square_def far_square_def through_def Std_fields
        rayPolyline_def meet_def)
  from made l l7 r r7 show ?thesis by simp
qed

section \<open>Targets of no recognized kind\<close>

lemma concat_map_Nil: "concat (map (\<lambda>i. []) xs) = []"
  by (induction xs) simp_all

lemma polyline_segments_GOther: "polyline_segments S thePolyline (GOther v) = []"
  by (simp add: polyline_segments_def Set_spread_def concat_map_Nil)

text \<open>
  C3, as amended. For every Line or Ray query and every target value that is of none of
  the recognized kinds, the dispatch returns the empty list and raises nothing. For a
  Polyline query the dispatch reads the property \<^verbatim>\<open>boundingBox\<close> of such a target before
  anything else: it raises a TypeError when the target is \<^verbatim>\<open>null\<close> or \<^verbatim>\<open>undefined\<close>; it
  returns the empty list when the property holds a box, whether the boxes overlap or
  not; and when the property is undefined, the outcome is that of \<^verbatim>\<open>overlaps\<close> on
  \<^verbatim>\<open>undefined\<close>: its exception, or else the empty list.
\<close>

theorem unrecognized_target_degrades:
  "line S theLine (GOther v) = [] \<and>
   ray S theRay (GOther v) = [] \<and>
   polyline S thePolyline (GOther (Object (Some box))) = Inr [] \<and>
   polyline S thePolyline (GOther (Object None)) =
     (case BoundingBox_overlaps_undefined S (boundingBox thePolyline) of
        Inl e \<Rightarrow> Inl e | Inr overlaps \<Rightarrow> Inr []) \<and>
   polyline S thePolyline (GOther Nullish) = Inl TypeError"
  by (simp add: polyline_segments_GOther split: sum.splits)

text \<open>
  C3 as stated fails for a Polyline query: with the target \<^verbatim>\<open>null\<close> the dispatch raises.
\<close>

theorem polyline_null_target_raises:
  "polyline Std unit_square (GOther Nullish) = Inl TypeError"
  by simp

section \<open>Polyline queries\<close>

lemma linePolyline_member:
  "t \<in> set (linePolyline S theLine thePolyline) \<Longrightarrow>
   \<exists>edge. intersects (lineLine S theLine edge) \<and> t = lineAU (lineLine S theLine edge)"
  by (auto simp: linePolyline_def Let_def split: if_splits)

lemma linePolyline_unit:
  "unit_parameters S \<Longrightarrow> t \<in> set (linePolyline S theLine thePolyline) \<Longrightarrow> 0 \<le> t \<and> t \<le> 1"
  using linePolyline_member [of t S theLine thePolyline]
  by (auto simp: unit_parameters_def)

lemma line_unit:
  "unit_parameters S \<Longrightarrow> t \<in> set (line S theLine g) \<Longrightarrow> 0 \<le> t \<and> t \<le> 1"
proof (induction S theLine g arbitrary: t rule: line.induct)
  case (1 S theLine otherGeom)
  then show ?case by auto
next
  case (2 S theLine otherGeom)
  then show ?case
    by (auto simp: unit_parameters_def Let_def split: if_splits)
next
  case (3 S theLine otherGeom)
  then show ?case
    by (auto simp: unit_parameters_def Let_def split: if_splits)
next
  case (4 S theLine otherGeom)
  then show ?case
    by (auto simp: unit_parameters_def Let_def split: if_splits)
next
  case (5 S theLine otherGeom)
  then show ?case by simp
next
  case (6 S theLine otherGeom)
  then show ?case
    by (auto simp: unit_parameters_def)
next
  case (7 S theLine otherGeom)
  then show ?case by simp
next
  case (8 S theLine otherGeom)
  then show ?case
    using linePolyline_unit [of S t theLine otherGeom] by (auto split: if_splits)
next
  case (9 S theLine otherGeom)
  then show ?case
    using linePolyline_unit [of S t theLine] by (auto split: if_splits)
next
  case (10 S theLine otherGeom)
  then show ?case by simp
qed

lemma polyline_segments_member:
  "p \<in> set (polyline_segments S thePolyline g) \<Longrightarrow>
   \<exists>i t. i < length (segments thePolyline) \<and>
         t \<in> set (line S (segments thePolyline ! i) g) \<and> p = real i + t"
  by (auto simp: polyline_segments_def Set_spread_def Let_def)

lemma polyline_segments_bounds:
  assumes "unit_parameters S" and "p \<in> set (polyline_segments S thePolyline g)"
  shows "0 \<le> p \<and> p \<le> real (length (segments thePolyline))"
proof -
  from polyline_segments_member [OF assms(2)] obtain i t where
    i: "i < length (segments thePolyline)" and
    t: "t \<in> set (line S (segments thePolyline ! i) g)" and
    p: "p = real i + t"
    by blast
  from line_unit [OF assms(1) t] have "0 \<le> t" "t \<le> 1" by simp_all
  moreover from i have "real i + 1 \<le> real (length (segments thePolyline))" by linarith
  ultimately show ?thesis using p by simp
qed

lemma collect_member:
  "collect rs = Inr xs \<Longrightarrow> x \<in> set xs \<Longrightarrow> Inr x \<in> set rs"
  by (induction rs arbitrary: xs) (auto split: sum.splits)

text \<open>
  C2, as amended. For every Polyline query with \<open>n\<close> segments (closed or open) and every
  target, when the solvers report parameters along a Line between 0 and 1, every parameter
  \<open>p\<close> that the polyline dispatch returns satisfies \<open>0 \<le> p \<le> n\<close>. The bound \<open>n\<close> itself
  is reached when the target meets the end of the last segment.
\<close>

theorem polyline_parameters_within_segment_count:
  "unit_parameters S \<Longrightarrow> polyline S thePolyline g = Inr ps \<Longrightarrow> p \<in> set ps \<Longrightarrow>
   0 \<le> p \<and> p \<le> real (length (segments thePolyline))"
proof (induction S thePolyline g arbitrary: ps p rule: polyline.induct)
  case (1 S thePolyline otherGeom)
  from "1.prems"(2) obtain rs where
    rs: "collect (map (polyline S thePolyline) otherGeom) = Inr rs" and
    ps: "ps = sort (concat rs)"
    by (auto split: sum.splits)
  from "1.prems"(3) ps obtain r where r: "r \<in> set rs" "p \<in> set r" by auto
  from collect_member [OF rs r(1)] obtain g' where
    "g' \<in> set otherGeom" "polyline S thePolyline g' = Inr r"
    by auto
  with "1.IH" "1.prems"(1) r(2) show ?case by blast
qed (auto dest: polyline_segments_bounds split: if_splits sum.splits)

lemma unit_parameters_Std: "unit_parameters Std"
proof -
  have cp: "0 \<le> std_Line_closestParameter l p True \<and> std_Line_closestParameter l p True \<le> 1"
    for l p
    by (cases l) (simp add: limit_def)
  have ll: "0 \<le> lineAU (std_lineLine a b) \<and> lineAU (std_lineLine a b) \<le> 1"
    if "intersects (std_lineLine a b)" for a b
    using that by (cases a; cases b) (auto split: option.splits)
  have rl: "0 \<le> lineU (std_rayLine r l flag) \<and> lineU (std_rayLine r l flag) \<le> 1"
    if "intersects (std_rayLine r l flag)" for r l flag
    using that by (cases r; cases l) (auto split: option.splits)
  have lc: "\<forall>t\<in>set (u (std_lineCircle l c)). 0 \<le> t \<and> t \<le> 1" for l c
    by (cases l) simp
  show ?thesis
    unfolding unit_parameters_def Std_fields using cp ll rl lc by blast
qed

theorem polyline_parameters_within_segment_count_witness:
  "unit_parameters Std \<and>
   polyline Std unit_square (GPoint (Point 0 0)) = Inr [0, 4] \<and>
   (4 :: real) \<in> set [0, 4] \<and>
   (0 :: real) \<le> 4 \<and> 4 \<le> real (length (segments unit_square))"
  using polyline_parameters_within_segment_count
    [OF unit_parameters_Std unit_square_corner, of 4]
    unit_parameters_Std unit_square_corner
  by simp

text \<open>
  C2 as stated fails: the closed unit square has four segments, and against its first
  corner (0,0) the dispatch returns the parameters 0 (start of the first segment) and 4
  (end of the last segment); 4 is not below the number of segments.
\<close>

theorem closing_vertex_parameter_equals_segment_count:
  "isClosed unit_square \<and>
   length (segments unit_square) = 4 \<and>
   polyline Std unit_square (GPoint (Point 0 0)) = Inr [0, 4] \<and>
   \<not> 4 < real (length (segments unit_square))"
  using unit_square_corner by (simp add: unit_square_def through_def)

section \<open>Boolean operations\<close>

lemma newHoles_result:
  "newHoles S l = Inr nh \<Longrightarrow> nh = map (\<lambda>h. Polyline_withOrientation S h clockwise) l"
  by (induction l arbitrary: nh) (auto split: if_splits sum.splits)

lemma Polygon_new_result:
  "Polygon_new S b hs = Inr P \<Longrightarrow>
   P = \<lparr>boundary = Polyline_withOrientation S b counterclockwise,
        holes = map (\<lambda>h. Polyline_withOrientation S h clockwise)
                    (case hs of None \<Rightarrow> [] | Some l \<Rightarrow> l)\<rparr>"
  by (auto simp: Polygon_new_def dest: newHoles_result split: if_splits option.splits sum.splits)

lemma rings_after_first:
  "map (\<lambda>i. f (coordinates ! i)) [Suc 0..<length coordinates] = map f (tl coordinates)"
  by (rule nth_equalityI) (simp_all add: nth_tl)

lemma Polygon_fromCoords_result:
  "Polygon_fromCoords S piece = Inr P \<Longrightarrow> P = rehydrate S piece"
proof -
  assume made: "Polygon_fromCoords S piece = Inr P"
  then have nonempty: "piece \<noteq> []"
    by (auto simp: Polygon_fromCoords_def)
  then have first: "piece ! 0 = hd piece"
    by (simp add: hd_conv_nth)
  show ?thesis
  proof (cases "length piece = 1")
    case True
    then have "tl piece = []" by (cases piece) simp_all
    with made True first show ?thesis
      by (auto simp: Polygon_fromCoords_def rehydrate_def dest: Polygon_new_result)
  next
    case False
    with made nonempty first show ?thesis
      by (auto simp: Polygon_fromCoords_def rehydrate_def rings_after_first
          dest: Polygon_new_result)
  qed
qed

lemma fromGeoJSON_result:
  "fromGeoJSON S multi = Inr out \<Longrightarrow>
   out = map (rehydrate S) (filter (\<lambda>piece. piece \<noteq> []) multi)"
  by (induction multi arbitrary: out)
     (auto dest: Polygon_fromCoords_result split: if_splits sum.splits)

lemma Polygon_fromCoords_closed:
  assumes "piece \<noteq> []" and "\<forall>ring\<in>set piece. isClosed (Polyline_fromCoords S ring)"
  shows "Polygon_fromCoords S piece = Inr (rehydrate S piece)"
proof -
  from assms(1) have first: "piece ! 0 = hd piece" "hd piece \<in> set piece"
    by (simp_all add: hd_conv_nth)
  have rest: "\<forall>h\<in>set (map (Polyline_fromCoords S) (tl piece)). isClosed h"
    using assms by (auto dest: list.set_sel(2))
  have holes: "newHoles S (map (Polyline_fromCoords S) (tl piece)) =
      Inr (map (\<lambda>ring. Polyline_withOrientation S (Polyline_fromCoords S ring) clockwise) (tl piece))"
    using newHoles_closed [OF rest] by (simp add: comp_def)
  show ?thesis
  proof (cases "length piece = 1")
    case True
    then have "tl piece = []" by (cases piece) simp_all
    with True first assms(2) show ?thesis
      by (simp add: Polygon_fromCoords_def Polygon_new_def rehydrate_def)
  next
    case False
    with assms first holes show ?thesis
      by (simp add: Polygon_fromCoords_def Polygon_new_def rehydrate_def rings_after_first)
  qed
qed

lemma fromGeoJSON_closed:
  "\<forall>piece\<in>set multi. \<forall>ring\<in>set piece. isClosed (Polyline_fromCoords S ring) \<Longrightarrow>
   fromGeoJSON S multi = Inr (map (rehydrate S) (filter (\<lambda>piece. piece \<noteq> []) multi))"
  by (induction multi) (simp_all add: Polygon_fromCoords_closed)

text \<open>
  C5. Every Polygon that \<^verbatim>\<open>union\<close>, \<^verbatim>\<open>intersection\<close> or \<^verbatim>\<open>difference\<close> returns is
  rehydrated from a piece of the clipping result that has at least one ring: the first
  ring becomes the boundary and the remaining rings the holes, and the constructor turns
  the boundary counterclockwise and every hole clockwise, whatever winding the clipping
  primitive emitted. Pieces with no ring are dropped without an error. The operation
  returns these polygons whenever every ring of the result converts to a closed polyline.
\<close>

theorem boolean_results_rehydrated:
  "(toMulti S operand = Inr m \<and>
    (\<forall>piece\<in>set (pcUnion S (Polygon_asGeoJSON S this) m).
       \<forall>ring\<in>set piece. isClosed (Polyline_fromCoords S ring)) \<longrightarrow>
      Polygon_union S this operand =
        Inr (map (rehydrate S)
               (filter (\<lambda>piece. piece \<noteq> []) (pcUnion S (Polygon_asGeoJSON S this) m)))) \<and>
   (toMulti S operand = Inr m \<and>
    (\<forall>piece\<in>set (pcIntersection S (Polygon_asGeoJSON S this) m).
       \<forall>ring\<in>set piece. isClosed (Polyline_fromCoords S ring)) \<longrightarrow>
      Polygon_intersection S this operand =
        Inr (map (rehydrate S)
               (filter (\<lambda>piece. piece \<noteq> []) (pcIntersection S (Polygon_asGeoJSON S this) m)))) \<and>
   (toMulti S operand = Inr m \<and>
    (\<forall>piece\<in>set (pcDifference S (Polygon_asGeoJSON S this) m).
       \<forall>ring\<in>set piece. isClosed (Polyline_fromCoords S ring)) \<longrightarrow>
      Polygon_difference S this operand =
        Inr (map (rehydrate S)
               (filter (\<lambda>piece. piece \<noteq> []) (pcDifference S (Polygon_asGeoJSON S this) m)))) \<and>
   (Polygon_union S this operand = Inr out \<longrightarrow>
      (\<exists>m. toMulti S operand = Inr m \<and>
           out = map (rehydrate S)
                   (filter (\<lambda>piece. piece \<noteq> []) (pcUnion S (Polygon_asGeoJSON S this) m)))) \<and>
   (Polygon_intersection S this operand = Inr out \<longrightarrow>
      (\<exists>m. toMulti S operand = Inr m \<and>
           out = map (rehydrate S)
                   (filter (\<lambda>piece. piece \<noteq> []) (pcIntersection S (Polygon_asGeoJSON S this) m)))) \<and>
   (Polygon_difference S this operand = Inr out \<longrightarrow>
      (\<exists>m. toMulti S operand = Inr m \<and>
           out = map (rehydrate S)
                   (filter (\<lambda>piece. piece \<noteq> []) (pcDifference S (Polygon_asGeoJSON S this) m)))) \<and>
   (fromGeoJSON S multi = Inr out \<longrightarrow>
      out = map (rehydrate S) (filter (\<lambda>piece. piece \<noteq> []) multi)) \<and>
   ((\<forall>piece\<in>set multi. \<forall>ring\<in>set piece. isClosed (Polyline_fromCoords S ring)) \<longrightarrow>
      fromGeoJSON S multi = Inr (map (rehydrate S) (filter (\<lambda>piece. piece \<noteq> []) multi)))"
proof -
  have succeeds: "(case toMulti S operand of Inl e \<Rightarrow> Inl e | Inr g \<Rightarrow> fromGeoJSON S (pc g)) =
      Inr (map (rehydrate S) (filter (\<lambda>piece. piece \<noteq> []) (pc m)))"
    if "toMulti S operand = Inr m"
      "\<forall>piece\<in>set (pc m). \<forall>ring\<in>set piece. isClosed (Polyline_fromCoords S ring)"
    for pc
    using that by (simp add: fromGeoJSON_closed)
  have returned: "\<exists>m. toMulti S operand = Inr m \<and>
      out = map (rehydrate S) (filter (\<lambda>piece. piece \<noteq> []) (pc m))"
    if "(case toMulti S operand of Inl e \<Rightarrow> Inl e | Inr g \<Rightarrow> fromGeoJSON S (pc g)) = Inr out"
    for pc
    using that by (auto dest: fromGeoJSON_result split: sum.splits)
  show ?thesis
    unfolding Polygon_union_def Polygon_intersection_def Polygon_difference_def
    using succeeds [of "pcUnion S (Polygon_asGeoJSON S this)"]
      succeeds [of "pcIntersection S (Polygon_asGeoJSON S this)"]
      succeeds [of "pcDifference S (Polygon_asGeoJSON S this)"]
      returned [of "pcUnion S (Polygon_asGeoJSON S this)"]
      returned [of "pcIntersection S (Polygon_asGeoJSON S this)"]
      returned [of "pcDifference S (Polygon_asGeoJSON S this)"]
      fromGeoJSON_result [of S multi out] fromGeoJSON_closed [of multi S]
    by blast
qed

lemma wound_piece_rings:
  "std_fromCoords [(0, 0), (0, 4), (4, 4), (4, 0), (0, 0)] =
     through [Point 0 0, Point 0 4, Point 4 4, Point 4 0] True"
  "std_fromCoords [(1, 1), (3, 1), (3, 3), (1, 3), (1, 1)] =
     through [Point 1 1, Point 3 1, Point 3 3, Point 1 3] True"
  by (simp_all add: std_fromCoords_def)

lemma turned:
  "std_withOrientation (through [Point 0 0, Point 0 4, Point 4 4, Point 4 0] True) counterclockwise =
     through [Point 4 0, Point 4 4, Point 0 4, Point 0 0] True"
  "std_withOrientation (through [Point 1 1, Point 3 1, Point 3 3, Point 1 3] True) clockwise =
     through [Point 1 3, Point 3 3, Point 3 1, Point 1 1] True"
  by (simp_all add: std_withOrientation_def shoelace_def through_def)

lemma wound_piece_rehydrated:
  "rehydrate Std wound_piece =
     \<lparr>boundary = through [Point 4 0, Point 4 4, Point 0 4, Point 0 0] True,
      holes = [through [Point 1 3, Point 3 3, Point 3 1, Point 1 1] True]\<rparr>"
  by (simp add: rehydrate_def wound_piece_def Std_fields wound_piece_rings turned)

lemma wound_piece_closed:
  "\<forall>piece\<in>set [[], wound_piece]. \<forall>ring\<in>set piece. isClosed (Polyline_fromCoords Std ring)"
  by (simp add: wound_piece_def Std_fields wound_piece_rings through_def)

lemma example_rings:
  "std_asGeoJSON square4 = [(0, 0), (4, 0), (4, 4), (0, 4), (0, 0)]"
  "std_asGeoJSON inner_square = [(1, 1), (1, 3), (3, 3), (3, 1), (1, 1)]"
  "std_asGeoJSON far_square = [(10, 10), (10, 12), (12, 12), (12, 10), (10, 10)]"
  by (simp_all add: std_asGeoJSON_def square4_def inner_square_def far_square_def through_def)

lemma example_loops:
  "std_fromCoords [(0, 0), (4, 0), (4, 4), (0, 4), (0, 0)] = square4"
  "std_fromCoords [(1, 1), (1, 3), (3, 3), (3, 1), (1, 1)] = inner_square"
  "std_fromCoords [(10, 10), (10, 12), (12, 12), (12, 10), (10, 10)] = far_square"
  by (simp_all add: std_fromCoords_def square4_def inner_square_def far_square_def)

lemma example_turned:
  "std_withOrientation square4 counterclockwise = square4"
  "std_withOrientation inner_square clockwise = inner_square"
  "std_withOrientation far_square counterclockwise =
     through [Point 12 10, Point 12 12, Point 10 12, Point 10 10] True"
  by (simp_all add: std_withOrientation_def shoelace_def square4_def inner_square_def
      far_square_def through_def)

lemma example_closed:
  "isClosed square4" "isClosed inner_square" "isClosed far_square"
  by (simp_all add: square4_def inner_square_def far_square_def through_def)

lemma holed_rings:
  "Polygon_asGeoJSON Std holed =
     [[(0, 0), (4, 0), (4, 4), (0, 4), (0, 0)], [(1, 1), (1, 3), (3, 3), (3, 1), (1, 1)]]"
  "Polyline_asGeoJSON Std far_square = [(10, 10), (10, 12), (12, 12), (12, 10), (10, 10)]"
  by (simp_all add: Polygon_asGeoJSON_def Std_fields holed_def example_rings)

lemma example_rings_closed:
  "isClosed (Polyline_fromCoords Std [(0, 0), (4, 0), (4, 4), (0, 4), (0, 0)])"
  "isClosed (Polyline_fromCoords Std [(1, 1), (1, 3), (3, 3), (3, 1), (1, 1)])"
  "isClosed (Polyline_fromCoords Std [(10, 10), (10, 12), (12, 12), (12, 10), (10, 10)])"
  by (simp_all add: Std_fields example_loops example_closed)

lemma example_rehydrated:
  "rehydrate Std
     [[(0, 0), (4, 0), (4, 4), (0, 4), (0, 0)], [(1, 1), (1, 3), (3, 3), (3, 1), (1, 1)]] =
     holed"
  "rehydrate Std [[(10, 10), (10, 12), (12, 12), (12, 10), (10, 10)]] =
     \<lparr>boundary = through [Point 12 10, Point 12 12, Point 10 12, Point 10 10] True,
      holes = []\<rparr>"
  by (simp_all add: rehydrate_def Std_fields example_loops example_turned holed_def)

text \<open>
  A clipping result with an empty piece and a piece wound the wrong way round: the empty
  piece is dropped and both rings are turned. The holed square against a square that lies
  apart from it: the union has two pieces, the intersection none, and the difference is
  the holed square.
\<close>

theorem boolean_results_rehydrated_witness:
  "isClosed (Polyline_fromCoords Std (wound_piece ! 0)) \<and>
   isClosed (Polyline_fromCoords Std (wound_piece ! 1)) \<and>
   fromGeoJSON Std [[], wound_piece] =
     Inr [\<lparr>boundary = through [Point 4 0, Point 4 4, Point 0 4, Point 0 0] True,
           holes = [through [Point 1 3, Point 3 3, Point 3 1, Point 1 1] True]\<rparr>] \<and>
   0 < shoelace (through [Point 4 0, Point 4 4, Point 0 4, Point 0 0] True) \<and>
   shoelace (through [Point 1 3, Point 3 3, Point 3 1, Point 1 1] True) < 0 \<and>
   toMulti Std (OPolylines [far_square]) =
     Inr (GeomMultiPolygon [[Polyline_asGeoJSON Std far_square]]) \<and>
   Polygon_union Std holed (OPolylines [far_square]) =
     Inr [holed, \<lparr>boundary = through [Point 12 10, Point 12 12, Point 10 12, Point 10 10] True,
                  holes = []\<rparr>] \<and>
   Polygon_intersection Std holed (OPolylines [far_square]) = Inr [] \<and>
   Polygon_difference Std holed (OPolylines [far_square]) = Inr [holed]"
proof -
  have closed: "isClosed (Polyline_fromCoords Std (wound_piece ! 0))"
    "isClosed (Polyline_fromCoords Std (wound_piece ! 1))"
    using wound_piece_closed by (simp_all add: wound_piece_def)
  have area: "0 < shoelace (through [Point 4 0, Point 4 4, Point 0 4, Point 0 0] True)"
    "shoelace (through [Point 1 3, Point 3 3, Point 3 1, Point 1 1] True) < 0"
    by (simp_all add: shoelace_def through_def)
  have nonempty: "wound_piece \<noteq> []"
    by (simp add: wound_piece_def)
  note at_apart = boolean_results_rehydrated
    [where S = Std and this = holed and operand = "OPolylines [far_square]"
       and m = "GeomMultiPolygon [[Polyline_asGeoJSON Std far_square]]"
       and multi = "[[], wound_piece]" and out = "[]"]
  note union_succeeds = at_apart [THEN conjunct1, THEN mp, OF conjI]
  note intersection_succeeds = at_apart [THEN conjunct2, THEN conjunct1, THEN mp, OF conjI]
  note difference_succeeds =
    at_apart [THEN conjunct2, THEN conjunct2, THEN conjunct1, THEN mp, OF conjI]
  note pieces_succeed =
    at_apart [THEN conjunct2, THEN conjunct2, THEN conjunct2, THEN conjunct2,
      THEN conjunct2, THEN conjunct2, THEN conjunct2, THEN mp]
  have "fromGeoJSON Std [[], wound_piece] =
      Inr (map (rehydrate Std) (filter (\<lambda>piece. piece \<noteq> []) [[], wound_piece]))"
    by (rule pieces_succeed [OF wound_piece_closed])
  then have pieces: "fromGeoJSON Std [[], wound_piece] =
     Inr [\<lparr>boundary = through [Point 4 0, Point 4 4, Point 0 4, Point 0 0] True,
           holes = [through [Point 1 3, Point 3 3, Point 3 1, Point 1 1] True]\<rparr>]"
    using nonempty by (simp add: wound_piece_rehydrated)
  have multi: "toMulti Std (OPolylines [far_square]) =
      Inr (GeomMultiPolygon [[Polyline_asGeoJSON Std far_square]])"
    by (simp add: toMulti_def)
  have union_closed:
    "\<forall>piece\<in>set (pcUnion Std (Polygon_asGeoJSON Std holed)
                      (GeomMultiPolygon [[Polyline_asGeoJSON Std far_square]])).
       \<forall>ring\<in>set piece. isClosed (Polyline_fromCoords Std ring)"
    unfolding holed_rings
    by (simp add: Std_fields(23) apart_union_def example_rings_closed)
  have intersection_closed:
    "\<forall>piece\<in>set (pcIntersection Std (Polygon_asGeoJSON Std holed)
                      (GeomMultiPolygon [[Polyline_asGeoJSON Std far_square]])).
       \<forall>ring\<in>set piece. isClosed (Polyline_fromCoords Std ring)"
    by (simp add: Std_fields(24) apart_intersection_def)
  have difference_closed:
    "\<forall>piece\<in>set (pcDifference Std (Polygon_asGeoJSON Std holed)
                      (GeomMultiPolygon [[Polyline_asGeoJSON Std far_square]])).
       \<forall>ring\<in>set piece. isClosed (Polyline_fromCoords Std ring)"
    unfolding holed_rings
    by (simp add: Std_fields(25) apart_difference_def example_rings_closed)
  have "Polygon_union Std holed (OPolylines [far_square]) =
      Inr (map (rehydrate Std)
             (filter (\<lambda>piece. piece \<noteq> [])
                (pcUnion Std (Polygon_asGeoJSON Std holed)
                   (GeomMultiPolygon [[Polyline_asGeoJSON Std far_square]]))))"
    by (rule union_succeeds [OF multi union_closed])
  then have union: "Polygon_union Std holed (OPolylines [far_square]) =
     Inr [holed, \<lparr>boundary = through [Point 12 10, Point 12 12, Point 10 12, Point 10 10] True,
                  holes = []\<rparr>]"
    unfolding holed_rings
    by (simp add: Std_fields(23) apart_union_def example_rehydrated)
  have "Polygon_intersection Std holed (OPolylines [far_square]) =
      Inr (map (rehydrate Std)
             (filter (\<lambda>piece. piece \<noteq> [])
                (pcIntersection Std (Polygon_asGeoJSON Std holed)
                   (GeomMultiPolygon [[Polyline_asGeoJSON Std far_square]]))))"
    by (rule intersection_succeeds [OF multi intersection_closed])
  then have intersection: "Polygon_intersection Std holed (OPolylines [far_square]) = Inr []"
    by (simp add: Std_fields(24) apart_intersection_def)
  have "Polygon_difference Std holed (OPolylines [far_square]) =
      Inr (map (rehydrate Std)
             (filter (\<lambda>piece. piece \<noteq> [])
                (pcDifference Std (Polygon_asGeoJSON Std holed)
                   (GeomMultiPolygon [[Polyline_asGeoJSON Std far_square]]))))"
    by (rule difference_succeeds [OF multi difference_closed])
  then have difference: "Polygon_difference Std holed (OPolylines [far_square]) = Inr [holed]"
    unfolding holed_rings
    by (simp add: Std_fields(23-25) apart_difference_def example_rehydrated)
  from closed pieces area multi union intersection difference show ?thesis
    by (intro conjI)
qed

end
